theory Spec2Isabelle
  imports Main "HOL-Library.Sublist"
begin

section \<open>The endpoint URL normalizer (tests/test\_discord\_bot\_fixes.py)\<close>

text \<open>
  Python strings are modelled as \<^typ>\<open>string\<close>.  The two string methods the
  normalizer calls are written out: \<open>s.rstrip(c)\<close> removes every trailing
  occurrence of the character \<open>c\<close>, and \<open>s.endswith(suf)\<close> compares the last
  \<open>len(suf)\<close> characters of \<open>s\<close> with \<open>suf\<close>.
\<close>

definition rstrip :: "char \<Rightarrow> string \<Rightarrow> string" where
  "rstrip c s = rev (dropWhile (\<lambda>x. x = c) (rev s))"

definition endswith :: "string \<Rightarrow> string \<Rightarrow> bool" where
  "endswith s suf \<longleftrightarrow> length suf \<le> length s \<and> drop (length s - length suf) s = suf"

definition get_chat_completions_url :: "string \<Rightarrow> string" where
  "get_chat_completions_url base_endpoint =
     (let base = rstrip (CHR ''/'') base_endpoint in
      if endswith base ''/chat/completions'' then base
      else if endswith base ''/v1'' then base @ ''/chat/completions''
      else base @ ''/v1/chat/completions'')"

text \<open>
  The normalizer as the specification words it: \<^emph>\<open>one\<close> trailing slash is trimmed,
  then the same three-way choice is made.
\<close>

definition trim_one_slash :: "string \<Rightarrow> string" where
  "trim_one_slash s = (if s \<noteq> [] \<and> last s = CHR ''/'' then butlast s else s)"

definition spec_chat_completions_url :: "string \<Rightarrow> string" where
  "spec_chat_completions_url base_endpoint =
     (let base = trim_one_slash base_endpoint in
      if suffix ''/chat/completions'' base then base
      else if suffix ''/v1'' base then base @ ''/chat/completions''
      else base @ ''/v1/chat/completions'')"

section \<open>The secret updater (strix/runtime/remote\_tool\_server/update\_secret.py)\<close>

subsection \<open>Exceptions\<close>

text \<open>
  Every exception the function can meet, by the class its handlers test for.  Each
  value carries the text of \<open>str(e)\<close> (for \<open>KeyError\<close>: the missing key).
  \<open>RequestException\<close> stands for \<open>requests.exceptions.RequestException\<close> and
  its subclasses (connection errors, timeouts); \<open>OtherException\<close> for any other
  subclass of \<open>Exception\<close>; \<open>NonException\<close> for a \<open>BaseException\<close> that
  is not an \<open>Exception\<close> (\<open>KeyboardInterrupt\<close>, \<open>SystemExit\<close>), which no
  handler of the source catches.
\<close>

datatype exn =
    RequestException string
  | KeyError string
  | ImportError string
  | OtherException string
  | NonException string

definition quoted :: "string \<Rightarrow> string" where
  "quoted s = [CHR 0x27] @ s @ [CHR 0x27]"

text \<open>
  \<open>repr\<close> of a string, which is what \<open>str\<close> of a \<open>KeyError\<close> shows of its key:
  double quotes when the string holds an apostrophe and no double quote, single quotes
  otherwise, with the backslash, the enclosing quote, newline, carriage return and tab
  escaped.  Other characters are copied, so this is \<open>repr\<close> on printable text.
\<close>

definition repr_char :: "char \<Rightarrow> char \<Rightarrow> string" where
  "repr_char q c =
     (if c = CHR 0x5C then [CHR 0x5C, CHR 0x5C]
      else if c = q then [CHR 0x5C, q]
      else if c = CHR 0x0A then [CHR 0x5C, CHR ''n'']
      else if c = CHR 0x0D then [CHR 0x5C, CHR ''r'']
      else if c = CHR 0x09 then [CHR 0x5C, CHR ''t'']
      else [c])"

definition py_repr :: "string \<Rightarrow> string" where
  "py_repr s =
     (let q = (if CHR 0x27 \<in> set s \<and> CHR 0x22 \<notin> set s then CHR 0x22 else CHR 0x27)
      in [q] @ concat (map (repr_char q) s) @ [q])"

fun str_exn :: "exn \<Rightarrow> string" where
  "str_exn (RequestException m) = m"
| "str_exn (KeyError k) = py_repr k"
| "str_exn (ImportError m) = m"
| "str_exn (OtherException m) = m"
| "str_exn (NonException m) = m"

subsection \<open>Values exchanged with the remote API\<close>

datatype json_value =
    JNull
  | JBool bool
  | JInt int
  | JFloat string
  | JStr string
  | JList "json_value list"
  | JDict "(string \<times> json_value) list"

text \<open>\<open>d[k]\<close> for a string key \<open>k\<close>: only a dict can be subscripted this way.\<close>

fun getitem :: "json_value \<Rightarrow> string \<Rightarrow> exn + json_value" where
  "getitem (JDict kvs) k = (case map_of kvs k of None \<Rightarrow> Inl (KeyError k) | Some v \<Rightarrow> Inr v)"
| "getitem (JList _) k = Inl (OtherException ''list indices must be integers or slices, not str'')"
| "getitem (JStr _) k = Inl (OtherException (''string indices must be integers, not '' @ quoted ''str''))"
| "getitem JNull k = Inl (OtherException (quoted ''NoneType'' @ '' object is not subscriptable''))"
| "getitem (JBool _) k = Inl (OtherException (quoted ''bool'' @ '' object is not subscriptable''))"
| "getitem (JInt _) k = Inl (OtherException (quoted ''int'' @ '' object is not subscriptable''))"
| "getitem (JFloat _) k = Inl (OtherException (quoted ''float'' @ '' object is not subscriptable''))"

text \<open>
  The specification's ``the JSON body has the field \<open>k\<close>'': the body is an object and
  \<open>k\<close> is one of its keys.
\<close>

fun has_field :: "json_value \<Rightarrow> string \<Rightarrow> bool" where
  "has_field (JDict kvs) k = (map_of kvs k \<noteq> None)"
| "has_field _ k = False"

type_synonym headers = "(string \<times> string) list"

text \<open>
  A \<open>requests.Response\<close>: \<open>body_text\<close> is its \<open>.text\<close>, and \<open>json\<close> the outcome of
  calling \<open>.json()\<close>, which raises when the body is not JSON.
\<close>

record response =
  status_code :: int
  body_text :: string
  json :: "exn + json_value"

subsection \<open>The world outside the function\<close>

text \<open>
  What the function does not compute itself is a parameter: the two HTTP calls, the
  import of PyNaCl (\<open>None\<close>: the import succeeds) and the library operations of the
  sealing block.
\<close>

record env =
  requests_get :: "string \<Rightarrow> headers \<Rightarrow> exn + response"
  requests_put :: "string \<Rightarrow> headers \<Rightarrow> json_value \<Rightarrow> exn + response"
  import_nacl :: "exn option"
  b64decode :: "json_value \<Rightarrow> exn + string"
  PublicKey :: "string \<Rightarrow> exn + string"
  SealedBox_encrypt :: "string \<Rightarrow> string \<Rightarrow> exn + string"
  b64encode :: "string \<Rightarrow> string"

text \<open>What an observer of one run sees, in order.\<close>

datatype event =
    Get string headers
  | Put string headers json_value
  | Print string

fun is_Put :: "event \<Rightarrow> bool" where
  "is_Put (Put _ _ _) = True"
| "is_Put _ = False"

definition put_issued :: "event list \<Rightarrow> bool" where
  "put_issued evs = list_ex is_Put evs"

subsection \<open>Formatting\<close>

function str_nat :: "nat \<Rightarrow> string" where
  "str_nat n = (if n < 10 then [char_of (48 + n)] else str_nat (n div 10) @ [char_of (48 + n mod 10)])"
  by pat_completeness auto
termination
  by (relation "measure id") auto

definition str_int :: "int \<Rightarrow> string" where
  "str_int i = (if i < 0 then CHR ''-'' # str_nat (nat (- i)) else str_nat (nat i))"

definition cross_mark :: string where
  "cross_mark = [CHR 0xE2, CHR 0x9D, CHR 0x8C]"

definition check_mark :: string where
  "check_mark = [CHR 0xE2, CHR 0x9C, CHR 0x85]"

definition warning_sign :: string where
  "warning_sign = [CHR 0xE2, CHR 0x9A, CHR 0xA0, CHR 0xEF, CHR 0xB8, CHR 0x8F]"

definition light_bulb :: string where
  "light_bulb = [CHR 0xF0, CHR 0x9F, CHR 0x92, CHR 0xA1]"

definition msg_pynacl_missing :: string where
  "msg_pynacl_missing = warning_sign @ '' PyNaCl not available, using original encrypted value''"

definition msg_get_failed :: "response \<Rightarrow> string" where
  "msg_get_failed r =
     cross_mark @ '' Failed to get public key: '' @ str_int (status_code r) @ '' - '' @ body_text r"

definition msg_updated :: "string \<Rightarrow> string" where
  "msg_updated secret_name =
     check_mark @ '' Secret '' @ quoted secret_name @ '' updated successfully using SERVER_TOKEN''"

definition msg_put_failed :: "response \<Rightarrow> string" where
  "msg_put_failed r =
     cross_mark @ '' Failed to update secret: '' @ str_int (status_code r) @ '' - '' @ body_text r"

definition msg_hint :: string where
  "msg_hint = light_bulb @
     '' The SERVER_TOKEN might not have the right permissions or the encrypted value format might be incorrect.''"

definition msg_usage :: string where
  "msg_usage =
     ''Usage: python -m strix.runtime.remote_tool_server.update_secret <server_token> <owner> <repo> <secret_name> <secret_value>''"

subsection \<open>The sealing block\<close>

text \<open>
  Lines 28--47 and 100--114: import the library, decode the key, build the box, encrypt
  \<open>secret_value.encode('utf-8')\<close> and encode the result.  Strings are byte strings
  here, so \<open>encode\<close> is the identity.
\<close>

definition nacl_seal :: "env \<Rightarrow> json_value \<Rightarrow> string \<Rightarrow> exn + string" where
  "nacl_seal e public_key secret_value =
     (case import_nacl e of
        Some x \<Rightarrow> Inl x
      | None \<Rightarrow>
         (case b64decode e public_key of
            Inl x \<Rightarrow> Inl x
          | Inr public_key_bytes \<Rightarrow>
             (case PublicKey e public_key_bytes of
                Inl x \<Rightarrow> Inl x
              | Inr github_public_key \<Rightarrow>
                 (case SealedBox_encrypt e github_public_key secret_value of
                    Inl x \<Rightarrow> Inl x
                  | Inr encrypted_data \<Rightarrow> Inr (b64encode e encrypted_data)))))"

text \<open>The \<open>try\<close> \dots \<open>except ImportError\<close> around it, as both functions have it.\<close>

fun on_import_error :: "string \<Rightarrow> exn + string \<Rightarrow> (exn + string) \<times> event list" where
  "on_import_error secret_value (Inr v) = (Inr v, [])"
| "on_import_error secret_value (Inl (ImportError m)) = (Inr secret_value, [Print msg_pynacl_missing])"
| "on_import_error secret_value (Inl x) = (Inl x, [])"

definition encrypt_secret_with_public_key ::
    "env \<Rightarrow> string \<Rightarrow> string \<Rightarrow> (exn + string) \<times> event list" where
  "encrypt_secret_with_public_key e secret_value public_key_raw =
     on_import_error secret_value (nacl_seal e (JStr public_key_raw) secret_value)"

subsection \<open>update\_secret\<close>

definition make_headers :: "string \<Rightarrow> headers" where
  "make_headers server_token =
     [(''Authorization'', ''Bearer '' @ server_token),
      (''Accept'', ''application/vnd.github.v3+json''),
      (''User-Agent'', ''Strix-Secret-Updater'')]"

definition pub_key_url :: "string \<Rightarrow> string \<Rightarrow> string" where
  "pub_key_url owner repo =
     ''https://api.github.com/repos/'' @ owner @ ''/'' @ repo @ ''/actions/secrets/public-key''"

definition secret_url :: "string \<Rightarrow> string \<Rightarrow> string \<Rightarrow> string" where
  "secret_url owner repo secret_name =
     ''https://api.github.com/repos/'' @ owner @ ''/'' @ repo @ ''/actions/secrets/'' @ secret_name"

definition make_payload :: "string \<Rightarrow> json_value \<Rightarrow> json_value" where
  "make_payload final_encrypted_value key_id =
     JDict [(''encrypted_value'', JStr final_encrypted_value), (''key_id'', key_id)]"

text \<open>Lines 121--136: the submission call and the reading of its status.\<close>

definition submit ::
    "env \<Rightarrow> headers \<Rightarrow> string \<Rightarrow> string \<Rightarrow> string \<Rightarrow> string \<Rightarrow> json_value \<Rightarrow> (exn + bool) \<times> event list" where
  "submit e hdrs owner repo secret_name final_encrypted_value key_id =
     (let url = secret_url owner repo secret_name;
          payload = make_payload final_encrypted_value key_id
      in case requests_put e url hdrs payload of
           Inl x \<Rightarrow> (Inl x, [Put url hdrs payload])
         | Inr response \<Rightarrow>
            if status_code response = 201 \<or> status_code response = 204
            then (Inr True, [Put url hdrs payload, Print (msg_updated secret_name)])
            else (Inr False, [Put url hdrs payload, Print (msg_put_failed response), Print msg_hint]))"

text \<open>
  Lines 87--136, the body of the outer \<open>try\<close>: the result is \<open>Inl\<close> when a
  statement raised, with the events up to that point.
\<close>

definition try_block ::
    "env \<Rightarrow> headers \<Rightarrow> string \<Rightarrow> string \<Rightarrow> string \<Rightarrow> string \<Rightarrow> (exn + bool) \<times> event list" where
  "try_block e hdrs owner repo secret_name secret_value =
     (let url = pub_key_url owner repo
      in case requests_get e url hdrs of
           Inl x \<Rightarrow> (Inl x, [Get url hdrs])
         | Inr response \<Rightarrow>
            if status_code response \<noteq> 200
            then (Inr False, [Get url hdrs, Print (msg_get_failed response)])
            else
             (case json response of
                Inl x \<Rightarrow> (Inl x, [Get url hdrs])
              | Inr pub_key_data \<Rightarrow>
                 (case getitem pub_key_data ''key_id'' of
                    Inl x \<Rightarrow> (Inl x, [Get url hdrs])
                  | Inr key_id \<Rightarrow>
                     (case getitem pub_key_data ''key'' of
                        Inl x \<Rightarrow> (Inl x, [Get url hdrs])
                      | Inr public_key \<Rightarrow>
                         (case on_import_error secret_value (nacl_seal e public_key secret_value) of
                            (Inl x, evs) \<Rightarrow> (Inl x, Get url hdrs # evs)
                          | (Inr final_encrypted_value, evs) \<Rightarrow>
                             (case submit e hdrs owner repo secret_name final_encrypted_value key_id of
                                (r, evs') \<Rightarrow> (r, Get url hdrs # evs @ evs')))))))"

definition msg_request_error :: "exn \<Rightarrow> string" where
  "msg_request_error x = cross_mark @ '' Request error: '' @ str_exn x"

definition msg_missing_key :: "exn \<Rightarrow> string" where
  "msg_missing_key x = cross_mark @ '' Missing key in response: '' @ str_exn x"

definition msg_unexpected :: "exn \<Rightarrow> string" where
  "msg_unexpected x = cross_mark @ '' Unexpected error: '' @ str_exn x"

text \<open>
  Lines 138--146, the handlers in their order; an exception no handler matches leaves
  the function.
\<close>

fun except_handlers :: "exn \<Rightarrow> (exn + bool) \<times> event list" where
  "except_handlers (RequestException m) = (Inr False, [Print (msg_request_error (RequestException m))])"
| "except_handlers (KeyError k) = (Inr False, [Print (msg_missing_key (KeyError k))])"
| "except_handlers (ImportError m) = (Inr False, [Print (msg_unexpected (ImportError m))])"
| "except_handlers (OtherException m) = (Inr False, [Print (msg_unexpected (OtherException m))])"
| "except_handlers (NonException m) = (Inl (NonException m), [])"

definition update_secret ::
    "env \<Rightarrow> string \<Rightarrow> string \<Rightarrow> string \<Rightarrow> string \<Rightarrow> string \<Rightarrow> (exn + bool) \<times> event list" where
  "update_secret e server_token owner repo secret_name secret_value =
     (let hdrs = make_headers server_token
      in case try_block e hdrs owner repo secret_name secret_value of
           (Inr b, evs) \<Rightarrow> (Inr b, evs)
         | (Inl x, evs) \<Rightarrow> (case except_handlers x of (r, evs') \<Rightarrow> (r, evs @ evs')))"

subsection \<open>main\<close>

text \<open>
  \<open>argv\<close> is \<open>sys.argv\<close>, the program name first.  The result is the status the
  process exits with (\<open>sys.exit\<close>), or the exception that left \<open>update_secret\<close>.
\<close>

definition main :: "env \<Rightarrow> string list \<Rightarrow> (exn + int) \<times> event list" where
  "main e argv =
     (if length argv \<noteq> 6 then (Inr 1, [Print msg_usage])
      else
       (case update_secret e (argv ! 1) (argv ! 2) (argv ! 3) (argv ! 4) (argv ! 5) of
          (Inl x, evs) \<Rightarrow> (Inl x, evs)
        | (Inr success, evs) \<Rightarrow> (Inr (if success then 0 else 1), evs)))"

subsection \<open>Sample worlds\<close>

text \<open>
  A key response as the API documents it, a library that works, and a remote side
  that answers every call with a fixed status.
\<close>

definition key_response :: response where
  "key_response =
     \<lparr>status_code = 200, body_text = ''{...}'',
      json = Inr (JDict [(''key_id'', JStr ''42''), (''key'', JStr ''a2V5'')])\<rparr>"

definition status_response :: "int \<Rightarrow> string \<Rightarrow> response" where
  "status_response code body =
     \<lparr>status_code = code, body_text = body, json = Inl (RequestException ''Expecting value'')\<rparr>"

definition world :: "(exn + response) \<Rightarrow> exn option \<Rightarrow> (exn + response) \<Rightarrow> env" where
  "world get_outcome nacl_outcome put_outcome =
     \<lparr>requests_get = (\<lambda>url hdrs. get_outcome),
      requests_put = (\<lambda>url hdrs payload. put_outcome),
      import_nacl = nacl_outcome,
      b64decode = (\<lambda>k. case k of JStr s \<Rightarrow> Inr s | _ \<Rightarrow> Inl (OtherException ''argument should be a bytes-like object or ASCII string'')),
      PublicKey = (\<lambda>k. Inr k),
      SealedBox_encrypt = (\<lambda>k m. Inr (''sealed:'' @ m)),
      b64encode = (\<lambda>c. ''b64:'' @ c)\<rparr>"

definition no_nacl :: "exn option" where
  "no_nacl = Some (ImportError (''No module named '' @ quoted ''nacl''))"

text \<open>
  What the caller of \<open>update_secret\<close> receives when the key fetch ends with the
  outcome \<open>g\<close>, everything else working.
\<close>

definition fetch_outcome :: "exn + response \<Rightarrow> exn + bool" where
  "fetch_outcome g =
     fst (update_secret (world g None (Inr (status_response 204 []))) ''t'' ''o'' ''r'' ''N'' ''s3cret'')"

section \<open>Properties of the URL normalizer\<close>

lemma endswith_suffix: "endswith s suf \<longleftrightarrow> suffix suf s"
  unfolding endswith_def suffix_def
  by (metis append_eq_conv_conj append_take_drop_id diff_add_inverse2 length_append le_add2)

lemma rstrip_no_trailing: "s = [] \<or> last s \<noteq> c \<Longrightarrow> rstrip c s = s"
  unfolding rstrip_def by (cases s rule: rev_cases) auto

lemma rstrip_append_replicate:
  assumes "b = [] \<or> last b \<noteq> c"
  shows "rstrip c (b @ replicate n c) = b"
proof -
  have "dropWhile (\<lambda>x. x = c) (replicate n c @ rev b) = dropWhile (\<lambda>x. x = c) (rev b)"
    by (rule dropWhile_append2) simp
  then have "rstrip c (b @ replicate n c) = rstrip c b"
    by (simp add: rstrip_def)
  with assms show ?thesis by (simp add: rstrip_no_trailing)
qed

lemma rstrip_last: "rstrip c s = [] \<or> last (rstrip c s) \<noteq> c"
  unfolding rstrip_def
  by (metis (mono_tags, lifting) hd_dropWhile last_rev rev_is_Nil_conv)

text \<open>Every string is a stem that does not end in \<open>c\<close>, followed by a run of \<open>c\<close>.\<close>

lemma rstrip_decompose: "\<exists>n. s = rstrip c s @ replicate n c"
proof (induction s rule: rev_induct)
  case Nil
  then show ?case by (simp add: rstrip_def)
next
  case (snoc x xs)
  show ?case
  proof (cases "x = c")
    case True
    from snoc obtain n where n: "xs = rstrip c xs @ replicate n c" ..
    have "rstrip c (xs @ [x]) = rstrip c xs" using True by (simp add: rstrip_def)
    moreover have "xs @ [x] = rstrip c xs @ replicate (Suc n) c"
      using n True by (metis append_assoc replicate_append_same replicate_Suc)
    ultimately show ?thesis by metis
  next
    case False
    then have "rstrip c (xs @ [x]) = xs @ [x]" by (simp add: rstrip_def)
    then show ?thesis by (metis append_Nil2 replicate_0)
  qed
qed

lemma every_string_decomposes:
  "\<exists>b n. (s::string) = b @ replicate n c \<and> (b = [] \<or> last b \<noteq> c)"
  using rstrip_decompose [of s c] rstrip_last [of c s] by blast

lemma url_ends_in_chat_completions: "suffix ''/chat/completions'' (get_chat_completions_url s)"
  unfolding get_chat_completions_url_def Let_def
  by (auto simp: endswith_suffix suffix_def)

lemma suffix_rstrip: "suffix suf r \<Longrightarrow> suf \<noteq> [] \<Longrightarrow> last suf \<noteq> c \<Longrightarrow> rstrip c r = r"
  by (rule rstrip_no_trailing) (auto simp: suffix_def)

text \<open>
  On an endpoint that does not end in two slashes, the normalizer does what the
  specification's wording says.
\<close>

lemma url_agrees_up_to_one_slash:
  assumes "\<not> suffix ''//'' s"
  shows "get_chat_completions_url s = spec_chat_completions_url s"
proof -
  have "rstrip (CHR ''/'') s = trim_one_slash s"
  proof (cases s rule: rev_cases)
    case Nil
    then show ?thesis by (simp add: rstrip_def trim_one_slash_def)
  next
    case (snoc ys y)
    show ?thesis
    proof (cases "y = CHR ''/''")
      case True
      with assms snoc have "ys = [] \<or> last ys \<noteq> CHR ''/''"
        by (cases ys rule: rev_cases) (auto simp: suffix_def)
      then have "rstrip (CHR ''/'') (ys @ replicate 1 (CHR ''/'')) = ys"
        by (rule rstrip_append_replicate)
      with True snoc show ?thesis by (simp add: trim_one_slash_def)
    next
      case False
      with snoc show ?thesis by (simp add: rstrip_def trim_one_slash_def)
    qed
  qed
  then show ?thesis
    by (simp add: get_chat_completions_url_def spec_chat_completions_url_def endswith_suffix Let_def)
qed

text \<open>
  Claim C9, as stated: the result is obtained by trimming \<^emph>\<open>one\<close> trailing slash and
  then choosing among the three endings.  The source calls \<open>rstrip('/')\<close>, which
  removes every trailing slash, so the two differ on an endpoint that ends in two
  slashes: for \<open>a//\<close> the source answers \<open>a/v1/chat/completions\<close>, the stated
  procedure \<open>a//v1/chat/completions\<close>.
\<close>

theorem url_one_slash_counterexample:
  "get_chat_completions_url ''a//'' \<noteq> spec_chat_completions_url ''a//''"
  by (simp add: get_chat_completions_url_def spec_chat_completions_url_def rstrip_def
      endswith_def trim_one_slash_def suffix_to_prefix)

text \<open>
  Claim C9, amended: for every base endpoint, written as a stem \<open>b\<close> that does not end
  in a slash followed by any number of slashes, all the trailing slashes are trimmed;
  then if \<open>b\<close> already ends in \<open>/chat/completions\<close> it is returned unchanged, else if
  it ends in \<open>/v1\<close> then \<open>/chat/completions\<close> is appended, otherwise
  \<open>/v1/chat/completions\<close> is appended.
\<close>

theorem url_all_slashes_trimmed:
  assumes "b = [] \<or> last b \<noteq> CHR ''/''"
  shows "get_chat_completions_url (b @ replicate n (CHR ''/'')) =
     (if suffix ''/chat/completions'' b then b
      else if suffix ''/v1'' b then b @ ''/chat/completions''
      else b @ ''/v1/chat/completions'')"
  using assms by (simp add: get_chat_completions_url_def rstrip_append_replicate endswith_suffix)

theorem url_all_slashes_trimmed_witness:
  "get_chat_completions_url (''http://h/v1'' @ replicate 2 (CHR ''/'')) = ''http://h/v1/chat/completions''"
  using url_all_slashes_trimmed [of "''http://h/v1''" 2] by (simp add: suffix_to_prefix)

text \<open>
  Claim C10: the normalizer is idempotent.  Whatever the input, the output ends in
  \<open>/chat/completions\<close>, so a second application trims nothing and takes the first
  branch.
\<close>

theorem url_idempotent:
  "get_chat_completions_url (get_chat_completions_url s) = get_chat_completions_url s"
proof -
  let ?r = "get_chat_completions_url s"
  have e: "suffix ''/chat/completions'' ?r" by (rule url_ends_in_chat_completions)
  then have "rstrip (CHR ''/'') ?r = ?r" by (rule suffix_rstrip) simp_all
  with e show ?thesis
    by (simp add: get_chat_completions_url_def [of ?r] endswith_suffix)
qed

section \<open>Properties of the secret updater\<close>

subsection \<open>Where a submission call can come from\<close>

lemma on_import_error_events:
  "snd (on_import_error v r) = [] \<or> snd (on_import_error v r) = [Print msg_pynacl_missing]"
  by (cases "(v, r)" rule: on_import_error.cases) simp_all

lemma on_import_error_no_put: "on_import_error v r = (x, evs) \<Longrightarrow> Put u h p \<in> set evs \<Longrightarrow> False"
  using on_import_error_events [of v r] by auto


lemma submit_put:
  "submit e hdrs owner repo name v kid = (r, evs) \<Longrightarrow> Put u h p \<in> set evs \<Longrightarrow>
   u = secret_url owner repo name \<and> h = hdrs \<and> p = make_payload v kid"
  by (auto simp: submit_def Let_def split: sum.splits if_splits)

lemma except_handlers_no_put: "except_handlers x = (r, evs) \<Longrightarrow> Put u h p \<in> set evs \<Longrightarrow> False"
  by (cases x) auto

lemma try_block_put:
  assumes tb: "try_block e hdrs owner repo name val = (r, evs)" and put: "Put u h p \<in> set evs"
  shows "\<exists>v kid pre es. u = secret_url owner repo name \<and> h = hdrs \<and> p = make_payload v kid \<and>
           submit e hdrs owner repo name v kid = (r, es) \<and> evs = pre @ es"
proof -
  let ?g = "Get (pub_key_url owner repo) hdrs"
  from tb put obtain response where g: "requests_get e (pub_key_url owner repo) hdrs = Inr response"
    by (cases "requests_get e (pub_key_url owner repo) hdrs") (auto simp: try_block_def Let_def)
  with tb put have ok: "status_code response = 200"
    by (auto simp: try_block_def Let_def split: if_splits)
  with tb put g obtain pub_key_data where j: "json response = Inr pub_key_data"
    by (cases "json response") (auto simp: try_block_def Let_def)
  with tb put g ok obtain key_id where k1: "getitem pub_key_data ''key_id'' = Inr key_id"
    by (cases "getitem pub_key_data ''key_id''") (auto simp: try_block_def Let_def)
  with tb put g ok j obtain public_key where k2: "getitem pub_key_data ''key'' = Inr public_key"
    by (cases "getitem pub_key_data ''key''") (auto simp: try_block_def Let_def)
  obtain s evs1 where o: "on_import_error val (nacl_seal e public_key val) = (s, evs1)"
    by (cases "on_import_error val (nacl_seal e public_key val)")
  with tb put g ok j k1 k2 obtain v where s: "s = Inr v"
    by (cases s) (auto simp: try_block_def Let_def dest: on_import_error_no_put)
  obtain r' es where sub: "submit e hdrs owner repo name v key_id = (r', es)"
    by (cases "submit e hdrs owner repo name v key_id")
  with tb g ok j k1 k2 o s have r: "r = r'" and evs: "evs = (?g # evs1) @ es"
    by (simp_all add: try_block_def Let_def)
  from put evs o have "Put u h p \<in> set es"
    by (auto dest: on_import_error_no_put)
  from submit_put [OF sub this] sub r evs show ?thesis by blast
qed

lemmas run_defs = update_secret_def try_block_def submit_def nacl_seal_def Let_def
  world_def key_response_def status_response_def no_nacl_def

lemma py_repr_key_id: "py_repr ''key_id'' = quoted ''key_id''"
  by (simp add: py_repr_def repr_char_def quoted_def Let_def)

lemma py_repr_key: "py_repr ''key'' = quoted ''key''"
  by (simp add: py_repr_def repr_char_def quoted_def Let_def)

lemma str_int_401: "str_int 401 = ''401''"
  by code_simp


subsection \<open>Exceptions never leave the function, except those no handler matches\<close>

lemma only_non_exceptions_escape:
  assumes "fst (update_secret e tok owner repo name val) = Inl x"
  shows "\<exists>m. x = NonException m"
proof -
  obtain r0 evs0 where tb: "try_block e (make_headers tok) owner repo name val = (r0, evs0)"
    by (cases "try_block e (make_headers tok) owner repo name val")
  show ?thesis
  proof (cases r0)
    case (Inl y)
    with tb assms show ?thesis
      by (cases y) (auto simp: update_secret_def)
  next
    case (Inr b)
    with tb assms show ?thesis by (simp add: update_secret_def)
  qed
qed

lemma caught_exception_returns_false:
  assumes "try_block e (make_headers tok) owner repo name val = (Inl x, evs)"
      and "\<forall>m. x \<noteq> NonException m"
  shows "fst (update_secret e tok owner repo name val) = Inr False"
  using assms by (cases x) (simp_all add: update_secret_def)

lemma put_exception_returns_false:
  assumes put: "Put u h p \<in> set (snd (update_secret e tok owner repo name val))"
      and resp: "requests_put e u h p = Inl x"
      and x: "\<forall>m. x \<noteq> NonException m"
  shows "fst (update_secret e tok owner repo name val) = Inr False"
proof -
  obtain r0 evs0 where tb: "try_block e (make_headers tok) owner repo name val = (r0, evs0)"
    by (cases "try_block e (make_headers tok) owner repo name val")
  have "Put u h p \<in> set evs0"
    using tb put
    by (auto simp: update_secret_def split: sum.splits prod.splits dest: except_handlers_no_put)
  from try_block_put [OF tb this] obtain v kid pre es where
    u: "u = secret_url owner repo name" "h = make_headers tok" "p = make_payload v kid"
    and s: "submit e (make_headers tok) owner repo name v kid = (r0, es)" and "evs0 = pre @ es"
    by blast
  from resp u s have "r0 = Inl x" by (simp add: submit_def)
  with tb x show ?thesis by (simp add: caught_exception_returns_false)
qed

subsection \<open>The fallback when the library cannot be imported\<close>

lemma import_error_forwards_value:
  assumes "requests_get e (pub_key_url owner repo) (make_headers tok) = Inr resp"
      and "status_code resp = 200"
      and "json resp = Inr (JDict kvs)"
      and "map_of kvs ''key_id'' = Some kid" and "map_of kvs ''key'' = Some k"
      and "import_nacl e = Some (ImportError m)"
  shows "Put (secret_url owner repo name) (make_headers tok)
           (JDict [(''encrypted_value'', JStr val), (''key_id'', kid)])
         \<in> set (snd (update_secret e tok owner repo name val))"
  using assms
  by (auto simp: update_secret_def try_block_def submit_def nacl_seal_def Let_def make_payload_def
      split: sum.splits prod.splits)

lemma encrypt_secret_fallback:
  "import_nacl e = Some (ImportError m) \<Longrightarrow>
   encrypt_secret_with_public_key e val key = (Inr val, [Print msg_pynacl_missing])"
  by (simp add: encrypt_secret_with_public_key_def nacl_seal_def)

text \<open>
  Claim C1: when the sealing library cannot be imported, \<open>update\<close> returns false, no
  submission call is issued and the plaintext is never transmitted.  The source does
  otherwise: with the import failing, a key fetch answering 200 with both fields and a
  submission answering 204, it prints a warning, puts the secret value itself in the
  \<open>encrypted_value\<close> field of the submission and returns true.
\<close>

theorem missing_backend_submits_plaintext:
  "update_secret (world (Inr key_response) no_nacl (Inr (status_response 204 [])))
     ''tok'' ''o'' ''r'' ''QWEN_TOKENS'' ''s3cret'' =
   (Inr True,
    [Get (pub_key_url ''o'' ''r'') (make_headers ''tok''),
     Print msg_pynacl_missing,
     Put (secret_url ''o'' ''r'' ''QWEN_TOKENS'') (make_headers ''tok'')
       (JDict [(''encrypted_value'', JStr ''s3cret''), (''key_id'', JStr ''42'')]),
     Print (msg_updated ''QWEN_TOKENS'')])"
  by (simp add: run_defs make_payload_def)

text \<open>
  Claim C3: \<open>update\<close> never raises for an injected failure (HTTP 401, 404, 429, 500,
  connection timeout, missing crypto backend) and returns false on each.  With the
  crypto backend missing and the remote side answering 200 and 201, the source returns
  true.
\<close>

theorem missing_backend_returns_true:
  "fst (update_secret (world (Inr key_response) no_nacl (Inr (status_response 201 ''Created'')))
          ''tok'' ''o'' ''r'' ''QWEN_TOKENS'' ''rotated-token-xyz'') = Inr True"
  by (simp add: run_defs)

subsection \<open>Reading the submission status\<close>



subsection \<open>Failures of the key fetch\<close>

text \<open>
  Claim C4: when the public-key fetch fails, by a status other than 200 or by a
  request exception, \<open>update_secret\<close> returns false and issues no submission call.
\<close>

theorem key_fetch_failure_short_circuits:
  assumes "(\<exists>resp. requests_get e (pub_key_url owner repo) (make_headers tok) = Inr resp \<and>
                   status_code resp \<noteq> 200) \<or>
           (\<exists>m. requests_get e (pub_key_url owner repo) (make_headers tok) = Inl (RequestException m))"
  shows "fst (update_secret e tok owner repo name val) = Inr False \<and>
         \<not> put_issued (snd (update_secret e tok owner repo name val))"
  using assms by (auto simp: update_secret_def try_block_def Let_def put_issued_def)

theorem key_fetch_failure_short_circuits_witness:
  "fst (update_secret (world (Inr (status_response 404 ''Not Found'')) None (Inr (status_response 204 [])))
          ''t'' ''o'' ''r'' ''N'' ''s3cret'') = Inr False \<and>
   \<not> put_issued (snd (update_secret (world (Inr (status_response 404 ''Not Found'')) None (Inr (status_response 204 [])))
          ''t'' ''o'' ''r'' ''N'' ''s3cret'')) \<and>
   fst (update_secret (world (Inl (RequestException ''timed out'')) None (Inr (status_response 204 [])))
          ''t'' ''o'' ''r'' ''N'' ''s3cret'') = Inr False \<and>
   \<not> put_issued (snd (update_secret (world (Inl (RequestException ''timed out'')) None (Inr (status_response 204 [])))
          ''t'' ''o'' ''r'' ''N'' ''s3cret''))"
proof -
  let ?w = "world (Inr (status_response 404 ''Not Found'')) None (Inr (status_response 204 []))"
  let ?w' = "world (Inl (RequestException ''timed out'')) None (Inr (status_response 204 []))"
  let ?u = "pub_key_url ''o'' ''r''" and ?h = "make_headers ''t''"
  have "requests_get ?w ?u ?h = Inr (status_response 404 ''Not Found'') \<and>
        status_code (status_response 404 ''Not Found'') \<noteq> 200"
    by (simp add: world_def status_response_def)
  then have a: "(\<exists>resp. requests_get ?w ?u ?h = Inr resp \<and> status_code resp \<noteq> 200) \<or>
                (\<exists>m. requests_get ?w ?u ?h = Inl (RequestException m))"
    by blast
  have "requests_get ?w' ?u ?h = Inl (RequestException ''timed out'')"
    by (simp add: world_def)
  then have b: "(\<exists>resp. requests_get ?w' ?u ?h = Inr resp \<and> status_code resp \<noteq> 200) \<or>
                (\<exists>m. requests_get ?w' ?u ?h = Inl (RequestException m))"
    by blast
  from key_fetch_failure_short_circuits [OF a] key_fetch_failure_short_circuits [OF b] show ?thesis by blast
qed

text \<open>
  Claim C5, as stated: for every key response with status 200 whose JSON body lacks
  \<open>key_id\<close> or \<open>key\<close>, the missing field is what \<open>update_secret\<close> reports.  When the
  body is JSON but not an object, here the empty list, subscripting it raises a
  \<open>TypeError\<close>, and the run ends in the catch-all handler: the line printed is
  \<open>Unexpected error\<close>, not \<open>Missing key in response\<close>.
\<close>

theorem non_object_body_counterexample:
  "update_secret
     (world (Inr \<lparr>status_code = 200, body_text = ''[]'', json = Inr (JList [])\<rparr>)
        None (Inr (status_response 204 [])))
     ''t'' ''o'' ''r'' ''N'' ''s3cret'' =
   (Inr False,
    [Get (pub_key_url ''o'' ''r'') (make_headers ''t''),
     Print (cross_mark @ '' Unexpected error: list indices must be integers or slices, not str'')]) \<and>
   Print (cross_mark @ '' Missing key in response: '' @ quoted ''key_id'')
     \<notin> set (snd (update_secret
         (world (Inr \<lparr>status_code = 200, body_text = ''[]'', json = Inr (JList [])\<rparr>)
            None (Inr (status_response 204 [])))
         ''t'' ''o'' ''r'' ''N'' ''s3cret''))"
  by (simp add: update_secret_def try_block_def Let_def world_def msg_unexpected_def)

text \<open>
  Claim C5, amended: for every key response with status 200 whose JSON body lacks
  \<open>key_id\<close> or \<open>key\<close>, \<open>update_secret\<close> does not raise, returns false and issues no
  submission call.  When the body is an object, it reports the missing key (the first
  of the two that is absent) as \<open>Missing key in response\<close>; when the body is not an
  object, it reports the text of the error that subscripting it raises, as
  \<open>Unexpected error\<close>.
\<close>

theorem key_response_without_fields:
  assumes g: "requests_get e (pub_key_url owner repo) (make_headers tok) = Inr resp"
      and s: "status_code resp = 200"
      and j: "json resp = Inr body"
      and lacks: "\<not> has_field body ''key_id'' \<or> \<not> has_field body ''key''"
  shows "fst (update_secret e tok owner repo name val) = Inr False \<and>
         \<not> put_issued (snd (update_secret e tok owner repo name val)) \<and>
         (body = JDict kvs \<longrightarrow>
            snd (update_secret e tok owner repo name val) =
              [Get (pub_key_url owner repo) (make_headers tok),
               Print (cross_mark @ '' Missing key in response: '' @
                      quoted (if map_of kvs ''key_id'' = None then ''key_id'' else ''key''))]) \<and>
         ((\<forall>kvs'. body \<noteq> JDict kvs') \<longrightarrow>
            (\<exists>m. getitem body ''key_id'' = Inl (OtherException m) \<and>
                 snd (update_secret e tok owner repo name val) =
                   [Get (pub_key_url owner repo) (make_headers tok),
                    Print (cross_mark @ '' Unexpected error: '' @ m)]))"
proof (cases body)
  case (JDict kvs0)
  with g s j lacks show ?thesis
    by (auto simp: update_secret_def try_block_def Let_def put_issued_def msg_missing_key_def
        py_repr_key_id py_repr_key split: option.splits)
qed (use g s j in \<open>simp_all add: update_secret_def try_block_def Let_def put_issued_def
      msg_unexpected_def\<close>)

theorem key_response_without_fields_witness:
  "update_secret
     (world (Inr \<lparr>status_code = 200, body_text = ''{}'', json = Inr (JDict [(''key_id'', JStr ''42'')])\<rparr>)
        None (Inr (status_response 204 [])))
     ''t'' ''o'' ''r'' ''N'' ''s3cret'' =
   (Inr False,
    [Get (pub_key_url ''o'' ''r'') (make_headers ''t''),
     Print (cross_mark @ '' Missing key in response: '' @ quoted ''key'')]) \<and>
   update_secret
     (world (Inr \<lparr>status_code = 200, body_text = ''null'', json = Inr JNull\<rparr>)
        None (Inr (status_response 204 [])))
     ''t'' ''o'' ''r'' ''N'' ''s3cret'' =
   (Inr False,
    [Get (pub_key_url ''o'' ''r'') (make_headers ''t''),
     Print (cross_mark @ '' Unexpected error: '' @ quoted ''NoneType'' @ '' object is not subscriptable'')])"
proof -
  let ?r1 = "\<lparr>status_code = 200, body_text = ''{}'', json = Inr (JDict [(''key_id'', JStr ''42'')])\<rparr>"
  let ?r2 = "\<lparr>status_code = 200, body_text = ''null'', json = Inr JNull\<rparr>"
  let ?w1 = "world (Inr ?r1) None (Inr (status_response 204 []))"
  let ?w2 = "world (Inr ?r2) None (Inr (status_response 204 []))"
  let ?u = "pub_key_url ''o'' ''r''" and ?h = "make_headers ''t''"
  have g1: "requests_get ?w1 ?u ?h = Inr ?r1" and g2: "requests_get ?w2 ?u ?h = Inr ?r2"
    by (simp_all add: world_def)
  have s1: "status_code ?r1 = 200" and s2: "status_code ?r2 = 200" by simp_all
  have j1: "json ?r1 = Inr (JDict [(''key_id'', JStr ''42'')])" and j2: "json ?r2 = Inr JNull"
    by simp_all
  have l1: "\<not> has_field (JDict [(''key_id'', JStr ''42'')]) ''key_id'' \<or>
            \<not> has_field (JDict [(''key_id'', JStr ''42'')]) ''key''"
    and l2: "\<not> has_field JNull ''key_id'' \<or> \<not> has_field JNull ''key''"
    by simp_all
  from key_response_without_fields [OF g1 s1 j1 l1, of "''N''" "''s3cret''" "[(''key_id'', JStr ''42'')]"]
  have a: "update_secret ?w1 ''t'' ''o'' ''r'' ''N'' ''s3cret'' =
             (Inr False, [Get ?u ?h, Print (cross_mark @ '' Missing key in response: '' @ quoted ''key'')])"
    by (simp add: prod_eq_iff)
  from key_response_without_fields [OF g2 s2 j2 l2, of "''N''" "''s3cret''"]
  have b: "update_secret ?w2 ''t'' ''o'' ''r'' ''N'' ''s3cret'' =
             (Inr False, [Get ?u ?h, Print (cross_mark @ '' Unexpected error: '' @ quoted ''NoneType'' @
                '' object is not subscriptable'')])"
    by (auto simp: prod_eq_iff)
  from a b show ?thesis by blast
qed

text \<open>
  Claim C6, as stated: the key fetch classifies its failures into distinct kinds that
  the caller can tell apart.  The source returns the one value \<open>False\<close> for a 401, a
  404, a 429, a 500 and a timeout alike.
\<close>

theorem fetch_failures_undifferentiated:
  "fetch_outcome (Inr (status_response 401 ''Unauthorized'')) = Inr False \<and>
   fetch_outcome (Inr (status_response 404 ''Not Found'')) = Inr False \<and>
   fetch_outcome (Inr (status_response 429 ''Too Many Requests'')) = Inr False \<and>
   fetch_outcome (Inr (status_response 500 ''Internal Server Error'')) = Inr False \<and>
   fetch_outcome (Inl (RequestException ''timed out'')) = Inr False"
  by (simp add: fetch_outcome_def run_defs)

text \<open>
  Claim C6, amended: the key fetch reports every status other than 200 in one form,
  \<open>Failed to get public key: <status> - <body>\<close>, and every request exception
  (connection failure, timeout) as \<open>Request error: <text>\<close>; in both cases nothing
  else happens and the caller receives \<open>False\<close>.
\<close>

theorem fetch_failure_diagnostics:
  "(requests_get e (pub_key_url owner repo) (make_headers tok) = Inr resp \<longrightarrow> status_code resp \<noteq> 200 \<longrightarrow>
      update_secret e tok owner repo name val =
        (Inr False,
         [Get (pub_key_url owner repo) (make_headers tok),
          Print (cross_mark @ '' Failed to get public key: '' @ str_int (status_code resp) @ '' - '' @
                 body_text resp)])) \<and>
   (requests_get e (pub_key_url owner repo) (make_headers tok) = Inl (RequestException m) \<longrightarrow>
      update_secret e tok owner repo name val =
        (Inr False,
         [Get (pub_key_url owner repo) (make_headers tok),
          Print (cross_mark @ '' Request error: '' @ m)]))"
  by (simp add: update_secret_def try_block_def Let_def msg_get_failed_def msg_request_error_def)

theorem fetch_failure_diagnostics_witness:
  "update_secret (world (Inr (status_response 401 ''Unauthorized'')) None (Inr (status_response 204 [])))
     ''t'' ''o'' ''r'' ''N'' ''s3cret'' =
     (Inr False,
      [Get (pub_key_url ''o'' ''r'') (make_headers ''t''),
       Print (cross_mark @ '' Failed to get public key: 401 - Unauthorized'')]) \<and>
   update_secret (world (Inl (RequestException ''timed out'')) None (Inr (status_response 204 [])))
     ''t'' ''o'' ''r'' ''N'' ''s3cret'' =
     (Inr False,
      [Get (pub_key_url ''o'' ''r'') (make_headers ''t''),
       Print (cross_mark @ '' Request error: timed out'')])"
  using fetch_failure_diagnostics [of "world (Inr (status_response 401 ''Unauthorized'')) None (Inr (status_response 204 []))"
               "''o''" "''r''" "''t''" "status_response 401 ''Unauthorized''" "''N''" "''s3cret''"]
        fetch_failure_diagnostics [of "world (Inl (RequestException ''timed out'')) None (Inr (status_response 204 []))"
               "''o''" "''r''" "''t''" _ "''N''" "''s3cret''" "''timed out''"]
  by (simp add: world_def status_response_def str_int_401)

subsection \<open>The command line\<close>

text \<open>
  Claim C8: \<open>main\<close> requires exactly five values after the program name.  With any
  other number it prints the usage line and exits with status 1; with five it passes
  them to \<open>update_secret\<close> in order and exits with 0 when that returns true, with 1
  when it returns false.
\<close>

theorem main_exit_status:
  "(length args \<noteq> 5 \<longrightarrow>
      main e (prog # args) =
        (Inr 1,
         [Print ''Usage: python -m strix.runtime.remote_tool_server.update_secret <server_token> <owner> <repo> <secret_name> <secret_value>''])) \<and>
   (update_secret e tok owner repo name val = (Inr b, evs) \<longrightarrow>
      main e [prog, tok, owner, repo, name, val] = (Inr (if b then 0 else 1), evs))"
  by (simp add: main_def msg_usage_def)

theorem main_exit_status_witness:
  "main (world (Inr key_response) None (Inr (status_response 201 []))) [''prog'', ''t'', ''o'', ''r'', ''N''] =
     (Inr 1,
      [Print ''Usage: python -m strix.runtime.remote_tool_server.update_secret <server_token> <owner> <repo> <secret_name> <secret_value>'']) \<and>
   fst (main (world (Inr key_response) None (Inr (status_response 201 [])))
          [''prog'', ''t'', ''o'', ''r'', ''N'', ''s3cret'']) = Inr 0 \<and>
   fst (main (world (Inr key_response) None (Inr (status_response 403 ''Forbidden'')))
          [''prog'', ''t'', ''o'', ''r'', ''N'', ''s3cret'']) = Inr 1"
proof -
  let ?w1 = "world (Inr key_response) None (Inr (status_response 201 []))"
  let ?w3 = "world (Inr key_response) None (Inr (status_response 403 ''Forbidden''))"
  let ?r1 = "update_secret ?w1 ''t'' ''o'' ''r'' ''N'' ''s3cret''"
  let ?r3 = "update_secret ?w3 ''t'' ''o'' ''r'' ''N'' ''s3cret''"
  have a: "length [''t'', ''o'', ''r'', ''N''] \<noteq> 5" by simp
  have b: "?r1 = (Inr True, snd ?r1)" by (simp add: run_defs)
  have c: "?r3 = (Inr False, snd ?r3)" by (simp add: run_defs)
  from a main_exit_status [where args = "[''t'', ''o'', ''r'', ''N'']" and e = ?w1 and prog = "''prog''"]
  have "main ?w1 [''prog'', ''t'', ''o'', ''r'', ''N''] =
          (Inr 1,
           [Print ''Usage: python -m strix.runtime.remote_tool_server.update_secret <server_token> <owner> <repo> <secret_name> <secret_value>''])"
    by blast
  moreover from b main_exit_status [where e = ?w1 and tok = "''t''" and owner = "''o''" and repo = "''r''" and
      name = "''N''" and val = "''s3cret''" and b = True and evs = "snd ?r1" and prog = "''prog''"]
  have "fst (main ?w1 [''prog'', ''t'', ''o'', ''r'', ''N'', ''s3cret'']) = Inr 0" by simp
  moreover from c main_exit_status [where e = ?w3 and tok = "''t''" and owner = "''o''" and repo = "''r''" and
      name = "''N''" and val = "''s3cret''" and b = False and evs = "snd ?r3" and prog = "''prog''"]
  have "fst (main ?w3 [''prog'', ''t'', ''o'', ''r'', ''N'', ''s3cret'']) = Inr 1" by simp
  ultimately show ?thesis by blast
qed

end
